theory Spec2Isabelle
  imports Complex_Main
begin

section \<open>Python strings\<close>

text \<open>
  A Python \<open>str\<close> is modelled as a \<^typ>\<open>string\<close> whose characters are the code points
  0..255 (ASCII and Latin-1); text with code points above 255 is outside the model.
  On that range \<open>str.lower\<close> moves \<open>A..Z\<close> and the capital letters 192..222 (215, the
  multiplication sign, apart) up by 32 and leaves the rest, and \<open>str.isspace\<close> holds of
  9..13, 28..32, 133 and 160.
\<close>

definition lower_char :: "char \<Rightarrow> char" where
  "lower_char c =
     (let n = (of_char c :: nat)
      in if (65 \<le> n \<and> n \<le> 90) \<or> (192 \<le> n \<and> n \<le> 222 \<and> n \<noteq> 215)
         then char_of (n + 32) else c)"

definition lower :: "string \<Rightarrow> string" where
  "lower s = map lower_char s"

definition isspace :: "char \<Rightarrow> bool" where
  "isspace c =
     (let n = (of_char c :: nat)
      in (9 \<le> n \<and> n \<le> 13) \<or> (28 \<le> n \<and> n \<le> 32) \<or> n = 133 \<or> n = 160)"

text \<open>\<open>s.strip()\<close>: whitespace removed at both ends.\<close>

definition strip :: "string \<Rightarrow> string" where
  "strip s = rev (dropWhile isspace (rev (dropWhile isspace s)))"

text \<open>\<open>s.startswith(sub)\<close> and the substring test \<open>sub in s\<close>.\<close>

fun startswith :: "string \<Rightarrow> string \<Rightarrow> bool" where
  "startswith s [] = True"
| "startswith [] (c # sub) = False"
| "startswith (d # s) (c # sub) = (d = c \<and> startswith s sub)"

fun contains :: "string \<Rightarrow> string \<Rightarrow> bool" where
  "contains sub [] = (sub = [])"
| "contains sub (c # s) = (startswith (c # s) sub \<or> contains sub s)"

text \<open>
  \<open>s.split(d)\<close> for a one-character separator: a string with \<open>n\<close> separators gives
  \<open>n + 1\<close> pieces, the empty string gives one empty piece.
\<close>

fun split_on :: "char \<Rightarrow> string \<Rightarrow> string list" where
  "split_on d [] = [[]]"
| "split_on d (c # s) =
     (if c = d then [] # split_on d s
      else (let r = split_on d s in (c # hd r) # tl r))"

text \<open>\<open>sep.join(xs)\<close> on a list of strings.\<close>

fun join :: "string \<Rightarrow> string list \<Rightarrow> string" where
  "join sep [] = []"
| "join sep [x] = x"
| "join sep (x # y # ys) = x @ sep @ join sep (y # ys)"

text \<open>\<open>any(k in s for k in keywords)\<close>, the keywords taken as they are.\<close>

definition any_in :: "string list \<Rightarrow> string \<Rightarrow> bool" where
  "any_in keywords s = list_ex (\<lambda>k. contains k s) keywords"

section \<open>extract_relevant_sentences\<close>

text \<open>
  The loop \<open>for sentence in sentences\<close>: each sentence is stripped, and appended to
  \<open>relevant_sentences\<close> when the lowercased sentence contains a lowercased keyword.
\<close>

fun relevant_loop :: "string list \<Rightarrow> string list \<Rightarrow> string list \<Rightarrow> string list" where
  "relevant_loop keywords [] relevant_sentences = relevant_sentences"
| "relevant_loop keywords (sentence # sentences) relevant_sentences =
     (let sentence' = strip sentence
      in if list_ex (\<lambda>keyword. contains (lower keyword) (lower sentence')) keywords
         then relevant_loop keywords sentences (relevant_sentences @ [sentence'])
         else relevant_loop keywords sentences relevant_sentences)"

definition extract_relevant_sentences :: "string \<Rightarrow> string list \<Rightarrow> string" where
  "extract_relevant_sentences content keywords =
     (let sentences = split_on CHR ''.'' content;
          relevant_sentences = relevant_loop keywords sentences []
      in if relevant_sentences \<noteq> []
         then join ''. '' (take 3 relevant_sentences) @ ''.''
         else content)"

section \<open>Python values and exceptions\<close>

text \<open>
  The values a parsed JSON body or a field of a search hit can hold. A number stands
  for the real it denotes (no arithmetic is done on it); a \<open>dict\<close> is an association
  list in insertion order, read with \<^const>\<open>map_of\<close>.
\<close>

datatype pyval =
    PNone
  | PBool bool
  | PNum real
  | PStr string
  | PList "pyval list"
  | PDict "(string \<times> pyval) list"

text \<open>
  Exceptions carry their class and the text \<open>str(e)\<close>. \<open>PlainException\<close> is
  \<open>Exception\<close> itself; \<open>ServiceError\<close> stands for whatever \<open>requests\<close> or the search
  client raise. All of them derive from \<open>Exception\<close>, so every \<open>except Exception\<close> of the
  source catches each of them.
\<close>

datatype exc_class =
    ValueError | KeyError | IndexError | TypeError | AttributeError
  | UnboundLocalError | PlainException | ServiceError

datatype exc = Exc exc_class string

fun exc_class_of :: "exc \<Rightarrow> exc_class" where
  "exc_class_of (Exc c m) = c"

fun str_exc :: "exc \<Rightarrow> string" where
  "str_exc (Exc c m) = m"

text \<open>
  Texts that the interpreter chooses and that differ between Python versions are
  parameters: the message of an unbound local, of a failed subscript, of a missing
  attribute and of a non-string item under \<open>join\<close>, and \<open>str(v)\<close> of a non-string value.
\<close>

record interp =
  unbound_local_text :: "string \<Rightarrow> string"
  subscript_text :: "pyval \<Rightarrow> string"
  no_attribute_text :: "pyval \<Rightarrow> string \<Rightarrow> string"
  join_item_text :: "nat \<Rightarrow> pyval \<Rightarrow> string"
  str_of :: "pyval \<Rightarrow> string"

text \<open>\<open>str(KeyError(k))\<close> is \<open>repr(k)\<close>; for the keys of this program (no quote, no
  backslash, printable ASCII) that is the key between single quotes.\<close>

definition repr_key :: "string \<Rightarrow> string" where
  "repr_key k = [CHR 0x27] @ k @ [CHR 0x27]"

text \<open>\<open>v[k]\<close> for a string key \<open>k\<close>.\<close>

fun getitem :: "interp \<Rightarrow> pyval \<Rightarrow> string \<Rightarrow> exc + pyval" where
  "getitem it (PDict d) k =
     (case map_of d k of
        Some v \<Rightarrow> Inr v
      | None \<Rightarrow> Inl (Exc KeyError (repr_key k)))"
| "getitem it v k = Inl (Exc TypeError (subscript_text it v))"

text \<open>\<open>v[0]\<close>. The keys of a parsed JSON object are strings, so \<open>0\<close> is never one of
  them; the first character of a string is a string.\<close>

fun getitem0 :: "interp \<Rightarrow> pyval \<Rightarrow> exc + pyval" where
  "getitem0 it (PList []) = Inl (Exc IndexError ''list index out of range'')"
| "getitem0 it (PList (x # xs)) = Inr x"
| "getitem0 it (PStr []) = Inl (Exc IndexError ''string index out of range'')"
| "getitem0 it (PStr (c # cs)) = Inr (PStr [c])"
| "getitem0 it (PDict d) = Inl (Exc KeyError ''0'')"
| "getitem0 it v = Inl (Exc TypeError (subscript_text it v))"

text \<open>Truth value of a value, as \<open>if v:\<close> tests it.\<close>

fun truthy :: "pyval \<Rightarrow> bool" where
  "truthy PNone = False"
| "truthy (PBool b) = b"
| "truthy (PNum x) = (x \<noteq> 0)"
| "truthy (PStr s) = (s \<noteq> [])"
| "truthy (PList xs) = (xs \<noteq> [])"
| "truthy (PDict d) = (d \<noteq> [])"

text \<open>A value inside an f-string: a string as it is, anything else through \<open>str\<close>.\<close>

fun format_value :: "interp \<Rightarrow> pyval \<Rightarrow> string" where
  "format_value it (PStr s) = s"
| "format_value it v = str_of it v"

text \<open>\<open>sep.join(items)\<close> on values: the first item that is not a string raises
  \<open>TypeError\<close>.\<close>

fun join_values_from :: "interp \<Rightarrow> nat \<Rightarrow> pyval list \<Rightarrow> exc + string list" where
  "join_values_from it i [] = Inr []"
| "join_values_from it i (PStr s # vs) =
     (case join_values_from it (Suc i) vs of
        Inl e \<Rightarrow> Inl e
      | Inr ss \<Rightarrow> Inr (s # ss))"
| "join_values_from it i (v # vs) = Inl (Exc TypeError (join_item_text it i v))"

definition join_values :: "interp \<Rightarrow> string \<Rightarrow> pyval list \<Rightarrow> exc + string" where
  "join_values it sep vs =
     (case join_values_from it 0 vs of
        Inl e \<Rightarrow> Inl e
      | Inr ss \<Rightarrow> Inr (join sep ss))"

text \<open>Decimal digits of a natural number, for \<open>{i}\<close> in an f-string.\<close>

fun str_nat :: "nat \<Rightarrow> string" where
  "str_nat n =
     (if n < 10 then [char_of (48 + n)]
      else str_nat (n div 10) @ [char_of (48 + n mod 10)])"

section \<open>The services\<close>

text \<open>
  The plugin object: the configuration read at construction, as the strings the
  f-strings of the source see.
\<close>

record config =
  openai_endpoint :: string
  openai_api_key :: string
  embedding_deployment :: string
  embedding_api_version :: string
  embedding_endpoint :: string
  chat_endpoint :: string
  chat_deployment :: string
  chat_api_version :: string

text \<open>\<open>VectorizedQuery(vector, k_nearest_neighbors, fields)\<close>; the record package keeps
  the name \<open>fields\<close> for itself, so the third field is \<open>fields_arg\<close>.\<close>

record vectorized_query =
  vector :: pyval
  k_nearest_neighbors :: int
  fields_arg :: string

text \<open>
  A call that leaves the process: \<open>requests.post(url, headers, json)\<close>, or
  \<open>search_client.search(search_text, vector_queries, select, filter, top)\<close>, where no
  filter and \<open>filter=None\<close> are the same request.
\<close>

datatype call =
    HttpPost string "(string \<times> string) list" pyval
  | Search string "vectorized_query list" string "string option" int

text \<open>
  An HTTP response: its status code, the text of the \<open>HTTPError\<close> that
  \<open>raise_for_status\<close> raises for it, and what \<open>response.json()\<close> gives.
\<close>

record http_response =
  status_code :: nat
  status_text :: string
  json_body :: "exc + pyval"

definition raise_for_status :: "http_response \<Rightarrow> exc option" where
  "raise_for_status r =
     (if 400 \<le> status_code r \<and> status_code r < 600
      then Some (Exc ServiceError (status_text r)) else None)"

text \<open>
  A search hit is a mapping from field names to values. The hits of one search are
  read by iteration, which may yield some hits and then raise.
\<close>

type_synonym document = "(string \<times> pyval) list"

record paged =
  hits :: "document list"
  raises_after :: "exc option"

text \<open>
  The world outside the process answers each call, knowing the calls made before it
  (so the same request can fail once and succeed the next time). The state that the
  functions below pass along is the list of calls made so far.
\<close>

record world =
  interpreter :: interp
  post :: "call list \<Rightarrow> string \<Rightarrow> (string \<times> string) list \<Rightarrow> pyval \<Rightarrow> exc + http_response"
  search :: "call list \<Rightarrow> string \<Rightarrow> vectorized_query list \<Rightarrow> string \<Rightarrow> string option \<Rightarrow> int
               \<Rightarrow> exc + paged"

text \<open>\<open>requests.post\<close>, \<open>raise_for_status\<close> and \<open>json()\<close> in a row, as both HTTP
  clients of the source do; the call is recorded.\<close>

definition post_json ::
  "world \<Rightarrow> string \<Rightarrow> (string \<times> string) list \<Rightarrow> pyval \<Rightarrow> call list
     \<Rightarrow> (exc + pyval) \<times> call list" where
  "post_json w url headers payload trace =
     (let trace' = trace @ [HttpPost url headers payload]
      in case post w trace url headers payload of
           Inl e \<Rightarrow> (Inl e, trace')
         | Inr response \<Rightarrow>
             (case raise_for_status response of
                Some e \<Rightarrow> (Inl e, trace')
              | None \<Rightarrow> (json_body response, trace')))"

section \<open>generate_embedding\<close>

definition embedding_url :: "config \<Rightarrow> string" where
  "embedding_url cfg =
     embedding_endpoint cfg @ ''/openai/deployments/'' @ embedding_deployment cfg
       @ ''/embeddings?api-version='' @ embedding_api_version cfg"

definition api_headers :: "config \<Rightarrow> (string \<times> string) list" where
  "api_headers cfg =
     [(''Content-Type'', ''application/json''), (''api-key'', openai_api_key cfg)]"

text \<open>\<open>embedding_data["data"][0]["embedding"]\<close>.\<close>

definition embedding_of :: "interp \<Rightarrow> pyval \<Rightarrow> exc + pyval" where
  "embedding_of it embedding_data =
     (case getitem it embedding_data ''data'' of
        Inl e \<Rightarrow> Inl e
      | Inr d \<Rightarrow>
          (case getitem0 it d of
             Inl e \<Rightarrow> Inl e
           | Inr d0 \<Rightarrow> getitem it d0 ''embedding''))"

definition generate_embedding ::
  "world \<Rightarrow> config \<Rightarrow> string \<Rightarrow> call list \<Rightarrow> (exc + pyval) \<times> call list" where
  "generate_embedding w cfg text trace =
     (if text = [] then (Inl (Exc ValueError ''Input text cannot be empty''), trace)
      else
        (let payload = PDict [(''input'', PStr text)];
             (body, trace') = post_json w (embedding_url cfg) (api_headers cfg) payload trace;
             tried = (case body of
                        Inl e \<Rightarrow> Inl e
                      | Inr embedding_data \<Rightarrow> embedding_of (interpreter w) embedding_data)
         in case tried of
              Inl e \<Rightarrow>
                (Inl (Exc PlainException (''Failed to generate embedding: '' @ str_exc e)), trace')
            | Inr embedding \<Rightarrow> (Inr embedding, trace')))"

section \<open>rephrase_with_chat_model\<close>

definition newline :: string where
  "newline = [CHR 0x0A]"

definition quote :: string where
  "quote = [CHR 0x27]"

definition dquote :: string where
  "dquote = [CHR 0x22]"

definition chat_url :: "config \<Rightarrow> string" where
  "chat_url cfg =
     chat_endpoint cfg @ ''/openai/deployments/'' @ chat_deployment cfg
       @ ''/chat/completions?api-version='' @ chat_api_version cfg"

definition system_prompt :: string where
  "system_prompt =
     ''You are a helpful assistant that rephrases and improves content from an employee handbook. ''
     @ newline @ ''            Your task is to:''
     @ newline @ ''            1. Make the content clear and easy to understand''
     @ newline @ ''            2. Keep all important information intact''
     @ newline @ ''            3. Structure the response in a professional manner''
     @ newline @ ''            4. Focus on answering the specific question asked''
     @ newline @ ''            5. Remove any redundant or unclear text''
     @ newline @ ''            6. Provide a direct, specific answer to the question''"

definition user_prompt :: "string \<Rightarrow> string \<Rightarrow> string" where
  "user_prompt content query =
     ''Please rephrase and improve the following content from Contoso'' @ quote
     @ ''s employee handbook to directly answer this specific question: ''
     @ dquote @ query @ dquote
     @ newline @ newline @ ''Content from handbook:''
     @ newline @ content
     @ newline @ newline
     @ ''Please provide a clear, professional, and direct response that specifically answers the question. Do not include generic information that doesn''
     @ quote @ ''t address the question.''"

definition chat_payload :: "string \<Rightarrow> string \<Rightarrow> pyval" where
  "chat_payload content query =
     PDict
       [(''messages'',
           PList
             [PDict [(''role'', PStr ''system''), (''content'', PStr system_prompt)],
              PDict [(''role'', PStr ''user''), (''content'', PStr (user_prompt content query))]]),
        (''max_tokens'', PNum 1000),
        (''temperature'', PNum 0.2),
        (''top_p'', PNum 0.9)]"

text \<open>\<open>result["choices"][0]["message"]["content"]\<close>.\<close>

definition chat_content :: "interp \<Rightarrow> pyval \<Rightarrow> exc + pyval" where
  "chat_content it result =
     (case getitem it result ''choices'' of
        Inl e \<Rightarrow> Inl e
      | Inr choices \<Rightarrow>
          (case getitem0 it choices of
             Inl e \<Rightarrow> Inl e
           | Inr choice \<Rightarrow>
               (case getitem it choice ''message'' of
                  Inl e \<Rightarrow> Inl e
                | Inr message \<Rightarrow> getitem it message ''content'')))"

text \<open>\<open>v.strip()\<close>: only a string has the method.\<close>

fun strip_value :: "interp \<Rightarrow> pyval \<Rightarrow> exc + string" where
  "strip_value it (PStr s) = Inr (strip s)"
| "strip_value it v = Inl (Exc AttributeError (no_attribute_text it v ''strip''))"

text \<open>The body of the \<open>try\<close> of \<open>rephrase_with_chat_model\<close>.\<close>

definition rephrase_try ::
  "world \<Rightarrow> config \<Rightarrow> string \<Rightarrow> string \<Rightarrow> call list \<Rightarrow> (exc + string) \<times> call list" where
  "rephrase_try w cfg content query trace =
     (let (body, trace') =
            post_json w (chat_url cfg) (api_headers cfg) (chat_payload content query) trace
      in case body of
           Inl e \<Rightarrow> (Inl e, trace')
         | Inr result \<Rightarrow>
             (case chat_content (interpreter w) result of
                Inl e \<Rightarrow> (Inl e, trace')
              | Inr rephrased_content \<Rightarrow>
                  (strip_value (interpreter w) rephrased_content, trace')))"

text \<open>\<open>rephrase_with_chat_model\<close>: the \<open>try\<close> and its handler, which returns the
  content it was given.\<close>

definition rephrase_with_chat_model ::
  "world \<Rightarrow> config \<Rightarrow> string \<Rightarrow> string \<Rightarrow> call list \<Rightarrow> string \<times> call list" where
  "rephrase_with_chat_model w cfg content query trace =
     (case rephrase_try w cfg content query trace of
        (Inl e, trace') \<Rightarrow> (content, trace')
      | (Inr rephrased_content, trace') \<Rightarrow> (rephrased_content, trace'))"

section \<open>search_documents\<close>

definition search_filter_for :: "string \<Rightarrow> string option" where
  "search_filter_for query =
     (let query_lower = lower query
      in if contains ''security'' query_lower \<or> contains ''data'' query_lower
         then Some (''search.ismatch('' @ quote
                      @ ''security OR data OR confidential OR privacy'' @ quote
                      @ '', '' @ quote @ ''content'' @ quote @ '')'')
         else if contains ''vacation'' query_lower \<or> contains ''pto'' query_lower
         then Some (''search.ismatch('' @ quote
                      @ ''vacation OR pto OR leave OR time off'' @ quote
                      @ '', '' @ quote @ ''content'' @ quote @ '')'')
         else if contains ''policy'' query_lower
         then Some (''search.ismatch('' @ quote
                      @ ''policy OR guideline OR procedure'' @ quote
                      @ '', '' @ quote @ ''content'' @ quote @ '')'')
         else None)"

definition whitelist :: "string list" where
  "whitelist = [''chunk_id'', ''content'', ''title'', ''url'', ''filepath'', ''parent_id'']"

text \<open>\<open>for field in [...]: if field in result: result_dict[field] = result[field]\<close>.\<close>

fun copy_fields :: "document \<Rightarrow> string list \<Rightarrow> document" where
  "copy_fields result [] = []"
| "copy_fields result (field # rest) =
     (case map_of result field of
        Some v \<Rightarrow> (field, v) # copy_fields result rest
      | None \<Rightarrow> copy_fields result rest)"

definition result_dict_of :: "document \<Rightarrow> exc + document" where
  "result_dict_of result =
     (case map_of result ''@search.score'' of
        None \<Rightarrow> Inl (Exc KeyError (repr_key ''@search.score''))
      | Some score \<Rightarrow> Inr ((''score'', score) # copy_fields result whitelist))"

text \<open>\<open>for result in results\<close>, appending to \<open>search_results\<close>; the iteration itself may
  raise once the hits it had are used up.\<close>

fun format_loop :: "document list \<Rightarrow> document list \<Rightarrow> exc + document list" where
  "format_loop [] search_results = Inr search_results"
| "format_loop (result # rest) search_results =
     (case result_dict_of result of
        Inl e \<Rightarrow> Inl e
      | Inr result_dict \<Rightarrow> format_loop rest (search_results @ [result_dict]))"

definition format_results :: "paged \<Rightarrow> exc + document list" where
  "format_results results =
     (case format_loop (hits results) [] of
        Inl e \<Rightarrow> Inl e
      | Inr search_results \<Rightarrow>
          (case raises_after results of
             Some e \<Rightarrow> Inl e
           | None \<Rightarrow> Inr search_results))"

text \<open>One search request and the formatting of its hits; the call is recorded.\<close>

definition run_search ::
  "world \<Rightarrow> string \<Rightarrow> vectorized_query \<Rightarrow> string option \<Rightarrow> int \<Rightarrow> call list
     \<Rightarrow> (exc + document list) \<times> call list" where
  "run_search w query vector_query search_filter topn trace =
     (let trace' = trace @ [Search query [vector_query] ''*'' search_filter topn]
      in case search w trace query [vector_query] ''*'' search_filter topn of
           Inl e \<Rightarrow> (Inl e, trace')
         | Inr results \<Rightarrow> (format_results results, trace'))"

text \<open>
  The body of the outer \<open>try\<close>. With its outcome it gives the binding of the local
  \<open>vector_query\<close> at the point where it stopped: \<open>None\<close> when the embedding failed,
  before the assignment.
\<close>

definition search_try ::
  "world \<Rightarrow> config \<Rightarrow> string \<Rightarrow> int \<Rightarrow> call list
     \<Rightarrow> (exc + document list) \<times> vectorized_query option \<times> call list" where
  "search_try w cfg query topn trace =
     (case generate_embedding w cfg query trace of
        (Inl e, trace1) \<Rightarrow> (Inl e, None, trace1)
      | (Inr query_embedding, trace1) \<Rightarrow>
          (let vector_query =
                 \<lparr>vector = query_embedding, k_nearest_neighbors = topn,
                  fields_arg = ''contentVector''\<rparr>;
               search_filter = search_filter_for query;
               (found, trace2) = run_search w query vector_query search_filter topn trace1
           in (found, Some vector_query, trace2)))"

text \<open>
  The handler of the outer \<open>try\<close>: the search without the filter, inside a \<open>try\<close> of
  its own whose handler raises \<open>Exception("Search failed: ...")\<close>. Reading the local
  \<open>vector_query\<close> while it is unbound raises \<open>UnboundLocalError\<close> inside that inner
  \<open>try\<close>, before any request is made.
\<close>

definition search_except ::
  "world \<Rightarrow> string \<Rightarrow> int \<Rightarrow> vectorized_query option \<Rightarrow> call list
     \<Rightarrow> (exc + document list) \<times> call list" where
  "search_except w query topn vector_query trace =
     (let (tried, trace') =
            (case vector_query of
               None \<Rightarrow>
                 (Inl (Exc UnboundLocalError
                         (unbound_local_text (interpreter w) ''vector_query'')), trace)
             | Some vq \<Rightarrow> run_search w query vq None topn trace)
      in case tried of
           Inl e2 \<Rightarrow> (Inl (Exc PlainException (''Search failed: '' @ str_exc e2)), trace')
         | Inr search_results \<Rightarrow> (Inr search_results, trace'))"

definition search_documents ::
  "world \<Rightarrow> config \<Rightarrow> string \<Rightarrow> int \<Rightarrow> call list \<Rightarrow> (exc + document list) \<times> call list" where
  "search_documents w cfg query topn trace =
     (case search_try w cfg query topn trace of
        (Inr search_results, vector_query, trace') \<Rightarrow> (Inr search_results, trace')
      | (Inl e, vector_query, trace') \<Rightarrow> search_except w query topn vector_query trace')"

section \<open>query_handbook\<close>

text \<open>The \<open>if\<close>/\<open>elif\<close> chain that chooses the header of the response.\<close>

definition header_for :: "string \<Rightarrow> string" where
  "header_for query =
     (let query_lower = lower query
      in if any_in [''data security'', ''security policy'', ''information security''] query_lower
         then ''**Contoso Data Security Policy Information:**'' @ newline @ newline
         else if any_in [''vacation'', ''pto'', ''time off'', ''leave''] query_lower
         then ''**Contoso Vacation and Time Off Policy:**'' @ newline @ newline
         else if any_in [''confidential'', ''confidentiality''] query_lower
         then ''**Contoso Confidentiality Guidelines:**'' @ newline @ newline
         else if any_in [''remote work'', ''work from home'', ''telework''] query_lower
         then ''**Contoso Remote Work Policy:**'' @ newline @ newline
         else if any_in [''benefits'', ''health'', ''insurance''] query_lower
         then ''**Contoso Employee Benefits:**'' @ newline @ newline
         else ''**Information from Contoso Employee Handbook regarding '' @ quote @ query
                @ quote @ '':**'' @ newline @ newline)"

definition security_keywords :: "string list" where
  "security_keywords =
     [''password'', ''encryption'', ''access'', ''confidential'', ''protect'', ''secure'',
      ''data handling'', ''classification'']"

definition vacation_keywords :: "string list" where
  "vacation_keywords =
     [''days'', ''hours'', ''request'', ''approval'', ''accrual'', ''balance'', ''holiday'']"

text \<open>\<open>self.extract_relevant_sentences(content, keywords)\<close> on a value: \<open>content.split\<close>
  exists for a string only.\<close>

fun extract_value :: "interp \<Rightarrow> pyval \<Rightarrow> string list \<Rightarrow> exc + string" where
  "extract_value it (PStr s) keywords = Inr (extract_relevant_sentences s keywords)"
| "extract_value it v keywords = Inl (Exc AttributeError (no_attribute_text it v ''split''))"

text \<open>The body of the first loop after \<open>content = result.get('content', ...)\<close>: what is
  appended to \<open>all_content\<close>.\<close>

definition narrow_content :: "interp \<Rightarrow> string \<Rightarrow> pyval \<Rightarrow> exc + pyval" where
  "narrow_content it query_lower content =
     (if contains ''data security'' query_lower \<or> contains ''security policy'' query_lower
      then (case extract_value it content security_keywords of
              Inl e \<Rightarrow> Inl e
            | Inr relevant_sentences \<Rightarrow>
                Inr (if relevant_sentences \<noteq> [] then PStr relevant_sentences else content))
      else if contains ''vacation'' query_lower \<or> contains ''pto'' query_lower
      then (case extract_value it content vacation_keywords of
              Inl e \<Rightarrow> Inl e
            | Inr relevant_sentences \<Rightarrow>
                Inr (if relevant_sentences \<noteq> [] then PStr relevant_sentences else content))
      else Inr content)"

text \<open>\<open>result.get('content', 'No content available')\<close>.\<close>

definition get_content :: "document \<Rightarrow> pyval" where
  "get_content result =
     (case map_of result ''content'' of
        Some v \<Rightarrow> v
      | None \<Rightarrow> PStr ''No content available'')"

text \<open>The first loop, \<open>for i, result in enumerate(results, 1)\<close>, appending to
  \<open>all_content\<close>.\<close>

fun content_loop :: "interp \<Rightarrow> string \<Rightarrow> document list \<Rightarrow> pyval list \<Rightarrow> exc + pyval list" where
  "content_loop it query_lower [] all_content = Inr all_content"
| "content_loop it query_lower (result # rest) all_content =
     (let content = get_content result
      in case narrow_content it query_lower content of
           Inl e \<Rightarrow> Inl e
         | Inr content' \<Rightarrow> content_loop it query_lower rest (all_content @ [content']))"

text \<open>\<open>result.get(key)\<close>, with \<open>None\<close> for a missing key.\<close>

definition get_field :: "document \<Rightarrow> string \<Rightarrow> pyval" where
  "get_field result key = (case map_of result key of Some v \<Rightarrow> v | None \<Rightarrow> PNone)"

text \<open>The second loop, \<open>for i, result in enumerate(results, 1)\<close>, appending one source
  line each to \<open>response\<close>.\<close>

fun sources_loop :: "interp \<Rightarrow> nat \<Rightarrow> document list \<Rightarrow> string \<Rightarrow> string" where
  "sources_loop it i [] response = response"
| "sources_loop it i (result # rest) response =
     (if truthy (get_field result ''title'')
      then sources_loop it (Suc i) rest
             (response @ ''- '' @ format_value it (get_field result ''title'') @ newline)
      else if truthy (get_field result ''url'')
      then sources_loop it (Suc i) rest
             (response @ ''- '' @ format_value it (get_field result ''url'') @ newline)
      else sources_loop it (Suc i) rest
             (response @ ''- Employee Handbook Section '' @ str_nat i @ newline))"

text \<open>The body of the \<open>try\<close> of \<open>query_handbook\<close>.\<close>

definition query_handbook_try ::
  "world \<Rightarrow> config \<Rightarrow> string \<Rightarrow> int \<Rightarrow> call list \<Rightarrow> (exc + string) \<times> call list" where
  "query_handbook_try w cfg query topn trace =
     (case search_documents w cfg query topn trace of
        (Inl e, trace1) \<Rightarrow> (Inl e, trace1)
      | (Inr results, trace1) \<Rightarrow>
          if results = []
          then (Inr ''No relevant information found in the Contoso Handbook.'', trace1)
          else
            (let query_lower = lower query;
                 response = header_for query
             in case content_loop (interpreter w) query_lower results [] of
                  Inl e \<Rightarrow> (Inl e, trace1)
                | Inr all_content \<Rightarrow>
                    (case join_values (interpreter w) (newline @ newline) all_content of
                       Inl e \<Rightarrow> (Inl e, trace1)
                     | Inr combined_content \<Rightarrow>
                         (let (rephrased_content, trace2) =
                                rephrase_with_chat_model w cfg combined_content query trace1;
                              response1 = response @ rephrased_content;
                              response2 = response1 @ newline @ newline @ ''**Sources:**''
                                            @ newline
                          in (Inr (sources_loop (interpreter w) 1 results response2),
                              trace2)))))"

text \<open>\<open>query_handbook\<close>: the \<open>try\<close> and its handler, which returns the error text.\<close>

definition query_handbook ::
  "world \<Rightarrow> config \<Rightarrow> string \<Rightarrow> int \<Rightarrow> call list \<Rightarrow> (exc + string) \<times> call list" where
  "query_handbook w cfg query topn trace =
     (case query_handbook_try w cfg query topn trace of
        (Inl e, trace') \<Rightarrow>
          (Inr (''Error querying the Contoso Handbook: '' @ str_exc e), trace')
      | (Inr response, trace') \<Rightarrow> (Inr response, trace'))"

section \<open>The specification's wording\<close>

text \<open>
  The five topic groups of the specification, in its priority order (data security,
  vacation/PTO, confidentiality, remote work, benefits), each with its header, and
  the generic header that names the query.
\<close>

definition spec_topic_groups :: "(string list \<times> string) list" where
  "spec_topic_groups =
     [([''data security'', ''security policy'', ''information security''],
       ''**Contoso Data Security Policy Information:**'' @ newline @ newline),
      ([''vacation'', ''pto'', ''time off'', ''leave''],
       ''**Contoso Vacation and Time Off Policy:**'' @ newline @ newline),
      ([''confidential'', ''confidentiality''],
       ''**Contoso Confidentiality Guidelines:**'' @ newline @ newline),
      ([''remote work'', ''work from home'', ''telework''],
       ''**Contoso Remote Work Policy:**'' @ newline @ newline),
      ([''benefits'', ''health'', ''insurance''],
       ''**Contoso Employee Benefits:**'' @ newline @ newline)]"

definition spec_generic_header :: "string \<Rightarrow> string" where
  "spec_generic_header query =
     ''**Information from Contoso Employee Handbook regarding '' @ quote @ query @ quote
       @ '':**'' @ newline @ newline"

text \<open>A query matches a group when its lowercased text contains a keyword of the group.\<close>

definition spec_matches :: "string \<Rightarrow> string list \<times> string \<Rightarrow> bool" where
  "spec_matches query g = any_in (fst g) (lower query)"

text \<open>First match wins: the header of the earliest group that the query matches.\<close>

definition spec_header :: "string \<Rightarrow> string" where
  "spec_header query =
     (case find (spec_matches query) spec_topic_groups of
        Some g \<Rightarrow> snd g
      | None \<Rightarrow> spec_generic_header query)"

text \<open>
  The specification's \<open>extract_relevant_sentences\<close>: the sentences are the pieces
  between periods, trimmed; those that contain a keyword, case-insensitively, are
  kept in their order; the first three at most are joined with a period and a space,
  and a period ends the result; with no match the content comes back as it was.
\<close>

definition spec_sentences :: "string \<Rightarrow> string list" where
  "spec_sentences content = map strip (split_on CHR ''.'' content)"

definition spec_relevant :: "string list \<Rightarrow> string \<Rightarrow> bool" where
  "spec_relevant keywords sentence =
     list_ex (\<lambda>keyword. contains (lower keyword) (lower sentence)) keywords"

definition spec_extract :: "string \<Rightarrow> string list \<Rightarrow> string" where
  "spec_extract content keywords =
     (let matches = filter (spec_relevant keywords) (spec_sentences content)
      in if matches = [] then content
         else join ''. '' (take 3 matches) @ ''.'')"



section \<open>Example worlds\<close>

text \<open>
  One interpreter, one configuration and a family of worlds for the examples. The
  text of the unbound local is CPython 3.12's; the other texts are placeholders.
\<close>

definition example_interp :: interp where
  "example_interp =
     \<lparr>unbound_local_text =
        (\<lambda>v. ''cannot access local variable '' @ quote @ v @ quote
               @ '' where it is not associated with a value''),
      subscript_text = (\<lambda>v. ''object is not subscriptable''),
      no_attribute_text = (\<lambda>v a. ''object has no attribute '' @ quote @ a @ quote),
      join_item_text = (\<lambda>i v. ''sequence item '' @ str_nat i @ '': expected str instance''),
      str_of = (\<lambda>v. ''<value>'')\<rparr>"

definition example_config :: config where
  "example_config =
     \<lparr>openai_endpoint = ''https://openai.example'',
      openai_api_key = ''key'',
      embedding_deployment = ''embed'',
      embedding_api_version = ''2023-05-15'',
      embedding_endpoint = ''https://openai.example'',
      chat_endpoint = ''https://openai.example'',
      chat_deployment = ''chat'',
      chat_api_version = ''2023-05-15''\<rparr>"

definition example_hits :: "document list" where
  "example_hits =
     [[(''@search.score'', PNum 0.9),
       (''content'',
          PStr ''Employees get 15 days PTO. Submit requests via the portal. Unrelated sentence.''),
       (''title'', PStr ''Time Off''),
       (''contentVector'', PList [PNum 0.25])],
      [(''@search.score'', PNum 0.5),
       (''content'', PStr ''Use a password. Lock your screen.''),
       (''url'', PStr ''https://contoso.example/handbook'')]]"

definition is_embedding_payload :: "pyval \<Rightarrow> bool" where
  "is_embedding_payload payload =
     (case payload of PDict ((k, v) # rest) \<Rightarrow> k = ''input'' | _ \<Rightarrow> False)"

definition is_search :: "call \<Rightarrow> bool" where
  "is_search c = (case c of Search q vqs sel flt n \<Rightarrow> True | HttpPost u h p \<Rightarrow> False)"

text \<open>
  \<open>example_world embed_ok first_ok retry_ok chat_ok found\<close>: the embedding service
  answers with a vector or with status 500; the first search request of a trace and
  a later one succeed with the hits \<open>found\<close> or raise; the chat service answers with a
  text or cannot be reached.
\<close>

definition example_world :: "bool \<Rightarrow> bool \<Rightarrow> bool \<Rightarrow> bool \<Rightarrow> document list \<Rightarrow> world" where
  "example_world embed_ok first_ok retry_ok chat_ok found =
     \<lparr>interpreter = example_interp,
      post = (\<lambda>trace url headers payload.
        if is_embedding_payload payload
        then (if embed_ok
              then Inr \<lparr>status_code = 200, status_text = [],
                        json_body = Inr (PDict [(''data'',
                          PList [PDict [(''embedding'', PList [PNum 0.25, PNum 0.5])]])])\<rparr>
              else Inr \<lparr>status_code = 500, status_text = ''500 Server Error'',
                        json_body = Inr PNone\<rparr>)
        else (if chat_ok
              then Inr \<lparr>status_code = 200, status_text = [],
                        json_body = Inr (PDict [(''choices'',
                          PList [PDict [(''message'',
                            PDict [(''content'', PStr ''  A rephrased answer.  '')])]])])\<rparr>
              else Inl (Exc ServiceError ''connection refused''))),
      search = (\<lambda>trace query vqs select flt topn.
        if list_ex is_search trace
        then (if retry_ok then Inr \<lparr>hits = found, raises_after = None\<rparr>
              else Inl (Exc ServiceError ''service unavailable''))
        else (if first_ok then Inr \<lparr>hits = found, raises_after = None\<rparr>
              else Inl (Exc ServiceError ''invalid filter'')))\<rparr>"

section \<open>Facts about the string functions\<close>

lemma relevant_loop_filter:
  "relevant_loop keywords sentences acc
     = acc @ filter (spec_relevant keywords) (map strip sentences)"
  by (induction sentences arbitrary: acc) (simp_all add: spec_relevant_def Let_def)

lemma extract_is_spec:
  "extract_relevant_sentences content keywords = spec_extract content keywords"
  by (simp add: extract_relevant_sentences_def spec_extract_def spec_sentences_def
      relevant_loop_filter Let_def)

lemma split_on_not_Nil: "split_on d s \<noteq> []"
  by (induction s) (simp_all add: Let_def)

lemma split_on_no_sep: "d \<notin> set t \<Longrightarrow> split_on d t = [t]"
  by (induction t) (auto simp: Let_def)

lemma split_on_append_sep:
  "d \<notin> set t \<Longrightarrow> split_on d (t @ d # rest) = t # split_on d rest"
  by (induction t) (auto simp: Let_def)

lemma split_on_Cons_other:
  "c \<noteq> d \<Longrightarrow> split_on d (c # s) = (c # hd (split_on d s)) # tl (split_on d s)"
  by (simp add: Let_def)

lemma split_on_pieces: "p \<in> set (split_on d s) \<Longrightarrow> d \<notin> set p"
proof (induction s arbitrary: p)
  case Nil
  then show ?case by simp
next
  case (Cons c s)
  show ?case
  proof (cases "c = d")
    case True
    with Cons show ?thesis by auto
  next
    case False
    obtain q qs where r: "split_on d s = q # qs"
      using split_on_not_Nil [of d s] by (cases "split_on d s") auto
    from Cons.prems False r have "p = c # q \<or> p \<in> set qs"
      by (simp add: Let_def)
    then show ?thesis
    proof
      assume "p = c # q"
      moreover have "d \<notin> set q" using Cons.IH [of q] r by simp
      ultimately show ?thesis using False by auto
    next
      assume "p \<in> set qs"
      then show ?thesis using Cons.IH [of p] r by simp
    qed
  qed
qed

lemma strip_Nil: "strip [] = []"
  by (simp add: strip_def)

lemma strip_subset: "set (strip s) \<subseteq> set s"
proof
  fix x assume "x \<in> set (strip s)"
  then have "x \<in> set (dropWhile isspace (rev (dropWhile isspace s)))"
    by (simp add: strip_def)
  then have "x \<in> set (rev (dropWhile isspace s))" by (rule set_dropWhileD)
  then have "x \<in> set (dropWhile isspace s)" by simp
  then show "x \<in> set s" by (rule set_dropWhileD)
qed

lemma strip_space_Cons: "isspace c \<Longrightarrow> strip (c # s) = strip s"
  by (simp add: strip_def)

lemma last_dropWhile: "dropWhile P xs \<noteq> [] \<Longrightarrow> last (dropWhile P xs) = last xs"
  by (induction xs) (auto split: if_splits)

lemma strip_ends:
  assumes "strip s \<noteq> []"
  shows "\<not> isspace (hd (strip s)) \<and> \<not> isspace (last (strip s))"
proof -
  let ?ys = "dropWhile isspace s"
  let ?zs = "dropWhile isspace (rev ?ys)"
  have t: "strip s = rev ?zs" by (simp add: strip_def)
  with assms have zs: "?zs \<noteq> []" by simp
  have ys: "?ys \<noteq> []"
  proof
    assume a: "?ys = []"
    have "?zs = []" unfolding a by simp
    with zs show False by contradiction
  qed
  have "last (strip s) = hd ?zs" using zs by (simp add: t last_rev)
  moreover have "\<not> isspace (hd ?zs)" using zs by (rule hd_dropWhile)
  moreover have "hd (strip s) = last ?zs" using zs by (simp add: t hd_rev)
  moreover have "last ?zs = last (rev ?ys)" using zs by (rule last_dropWhile)
  moreover have "last (rev ?ys) = hd ?ys" using ys by (simp add: last_rev)
  moreover have "\<not> isspace (hd ?ys)" using ys by (rule hd_dropWhile)
  ultimately show ?thesis by simp
qed

lemma strip_fixed:
  assumes "t = [] \<or> (\<not> isspace (hd t) \<and> \<not> isspace (last t))"
  shows "strip t = t"
proof (cases "t = []")
  case True
  then show ?thesis by (simp add: strip_def)
next
  case False
  with assms have h: "\<not> isspace (hd t)" and l: "\<not> isspace (last t)" by auto
  have 1: "dropWhile isspace t = t" using h by (simp add: dropWhile_eq_self_iff)
  have "hd (rev t) = last t" using False by (simp add: hd_rev)
  then have 2: "dropWhile isspace (rev t) = rev t" using l by (simp add: dropWhile_eq_self_iff)
  show ?thesis by (simp add: strip_def 1 2)
qed

lemma strip_idem: "strip (strip s) = strip s"
  using strip_ends [of s] by (intro strip_fixed) blast

lemma isspace_space: "isspace CHR '' ''"
  by (simp add: isspace_def)

lemma split_on_joined:
  "ts \<noteq> [] \<Longrightarrow> \<forall>t\<in>set ts. CHR ''.'' \<notin> set t \<Longrightarrow>
     split_on CHR ''.'' (join ''. '' ts @ ''.'')
       = hd ts # map (\<lambda>t. CHR '' '' # t) (tl ts) @ [[]]"
proof (induction ts)
  case Nil
  then show ?case by simp
next
  case (Cons x ts)
  have x: "CHR ''.'' \<notin> set x" using Cons.prems(2) by simp
  show ?case
  proof (cases ts)
    case Nil
    then show ?thesis using split_on_append_sep [OF x, of "[]"] by simp
  next
    case (Cons y ys)
    have IH: "split_on CHR ''.'' (join ''. '' ts @ ''.'')
                = y # map (\<lambda>t. CHR '' '' # t) ys @ [[]]"
      using Cons.IH Cons.prems(2) Cons by simp
    have "join ''. '' (x # ts) @ ''.''
            = x @ CHR ''.'' # (CHR '' '' # (join ''. '' ts @ ''.''))"
      using Cons by simp
    then have "split_on CHR ''.'' (join ''. '' (x # ts) @ ''.'')
            = x # split_on CHR ''.'' (CHR '' '' # (join ''. '' ts @ ''.''))"
      using split_on_append_sep [OF x] by simp
    also have "split_on CHR ''.'' (CHR '' '' # (join ''. '' ts @ ''.''))
            = (CHR '' '' # y) # map (\<lambda>t. CHR '' '' # t) ys @ [[]]"
      by (subst split_on_Cons_other) (simp_all add: IH)
    finally show ?thesis using Cons by simp
  qed
qed

lemma sentences_of_joined:
  assumes "ts \<noteq> []" and "\<forall>t\<in>set ts. CHR ''.'' \<notin> set t"
  shows "spec_sentences (join ''. '' ts @ ''.'') = map strip ts @ [[]]"
proof -
  obtain t rest where ts: "ts = t # rest" using assms(1) by (cases ts) auto
  show ?thesis
    unfolding spec_sentences_def split_on_joined [OF assms]
    by (simp add: ts strip_Nil strip_space_Cons isspace_space comp_def)
qed

lemma not_relevant_Nil:
  assumes "\<forall>k\<in>set keywords. k \<noteq> []"
  shows "\<not> spec_relevant keywords []"
  using assms by (simp add: spec_relevant_def list_ex_iff lower_def)

lemma spec_extract_joined:
  assumes ne: "ts \<noteq> []" and len: "length ts \<le> 3"
    and nodot: "\<forall>t\<in>set ts. CHR ''.'' \<notin> set t"
    and fixed: "\<forall>t\<in>set ts. strip t = t"
    and rel: "\<forall>t\<in>set ts. spec_relevant keywords t"
    and nil: "\<not> spec_relevant keywords []"
  shows "spec_extract (join ''. '' ts @ ''.'') keywords = join ''. '' ts @ ''.''"
proof -
  have "map strip ts = ts" using fixed by (simp add: map_idI)
  then have sent: "spec_sentences (join ''. '' ts @ ''.'') = ts @ [[]]"
    using sentences_of_joined [OF ne nodot] by simp
  have "filter (spec_relevant keywords) ts = ts" using rel by (simp add: filter_id_conv)
  then have flt: "filter (spec_relevant keywords) (ts @ [[]]) = ts" using nil by simp
  have tk: "take 3 ts = ts" using len by simp
  show ?thesis
    unfolding spec_extract_def sent flt Let_def tk using ne by simp
qed

lemma sentence_facts:
  assumes "t \<in> set (filter (spec_relevant keywords) (spec_sentences content))"
  shows "CHR ''.'' \<notin> set t" and "strip t = t" and "spec_relevant keywords t"
proof -
  from assms have t: "t \<in> set (spec_sentences content)" and r: "spec_relevant keywords t"
    by simp_all
  from t obtain p where p: "p \<in> set (split_on CHR ''.'' content)" and tp: "t = strip p"
    unfolding spec_sentences_def by auto
  have "CHR ''.'' \<notin> set p" using p by (rule split_on_pieces)
  then show "CHR ''.'' \<notin> set t" using strip_subset [of p] tp by blast
  show "strip t = t" unfolding tp by (rule strip_idem)
  show "spec_relevant keywords t" by (rule r)
qed

lemma spec_extract_idem:
  assumes "\<forall>k\<in>set keywords. k \<noteq> []"
  shows "spec_extract (spec_extract content keywords) keywords = spec_extract content keywords"
proof -
  define ms where "ms = filter (spec_relevant keywords) (spec_sentences content)"
  show ?thesis
  proof (cases "ms = []")
    case True
    then have "spec_extract content keywords = content"
      by (simp add: spec_extract_def ms_def)
    then show ?thesis by simp
  next
    case False
    define ts where "ts = take 3 ms"
    have out: "spec_extract content keywords = join ''. '' ts @ ''.''"
      using False by (simp add: spec_extract_def ms_def ts_def)
    have ne: "ts \<noteq> []" using False by (simp add: ts_def)
    have len: "length ts \<le> 3" by (simp add: ts_def)
    have sub: "\<And>t. t \<in> set ts \<Longrightarrow>
        t \<in> set (filter (spec_relevant keywords) (spec_sentences content))"
      unfolding ts_def ms_def by (rule in_set_takeD)
    have "spec_extract (join ''. '' ts @ ''.'') keywords = join ''. '' ts @ ''.''"
    proof (rule spec_extract_joined [OF ne len])
      show "\<forall>t\<in>set ts. CHR ''.'' \<notin> set t" using sub sentence_facts(1) by blast
      show "\<forall>t\<in>set ts. strip t = t" using sub sentence_facts(2) by blast
      show "\<forall>t\<in>set ts. spec_relevant keywords t" using sub sentence_facts(3) by blast
      show "\<not> spec_relevant keywords []" using assms by (rule not_relevant_Nil)
    qed
    then show ?thesis unfolding out .
  qed
qed

section \<open>Sentence extraction\<close>

text \<open>
  Claim C7. \<open>extract_relevant_sentences\<close> splits the content at the periods, keeps
  the (trimmed) sentences that contain one of the keywords without regard to case,
  in their order, joins the first three of them at most with a period and a space and
  ends the result with a period; when no sentence matches it returns the content
  unchanged. On the two examples of the specification it returns the first two
  sentences, and its first argument.
\<close>

theorem extract_relevant_sentences_spec:
  "extract_relevant_sentences content keywords = spec_extract content keywords
   \<and> extract_relevant_sentences
        ''Employees get 15 days PTO. Submit requests via the portal. Unrelated sentence.''
        [''days'', ''request'']
      = ''Employees get 15 days PTO. Submit requests via the portal.''
   \<and> extract_relevant_sentences ''No matching keywords here.'' [''zzz'']
      = ''No matching keywords here.''"
proof (intro conjI)
  show "extract_relevant_sentences content keywords = spec_extract content keywords"
    by (rule extract_is_spec)
  show "extract_relevant_sentences
          ''Employees get 15 days PTO. Submit requests via the portal. Unrelated sentence.''
          [''days'', ''request'']
        = ''Employees get 15 days PTO. Submit requests via the portal.''"
    by code_simp
  show "extract_relevant_sentences ''No matching keywords here.'' [''zzz'']
        = ''No matching keywords here.''"
    by code_simp
qed

text \<open>
  Claim C10. \<open>extract_relevant_sentences\<close> is idempotent when no keyword is the
  empty string: applied to its own result with the same keywords it returns that
  result.
\<close>

theorem extract_relevant_sentences_idempotent:
  assumes "\<forall>k\<in>set keywords. k \<noteq> []"
  shows "extract_relevant_sentences (extract_relevant_sentences content keywords) keywords
           = extract_relevant_sentences content keywords"
  using spec_extract_idem [OF assms] by (simp add: extract_is_spec)

theorem extract_relevant_sentences_idempotent_witness:
  "extract_relevant_sentences
     (extract_relevant_sentences
        ''Employees get 15 days PTO. Submit requests via the portal. Unrelated sentence.''
        [''days'', ''request''])
     [''days'', ''request'']
   = ''Employees get 15 days PTO. Submit requests via the portal.''"
proof -
  have k: "\<forall>k\<in>set [''days'', ''request'']. k \<noteq> []" by simp
  have v: "extract_relevant_sentences
        ''Employees get 15 days PTO. Submit requests via the portal. Unrelated sentence.''
        [''days'', ''request'']
      = ''Employees get 15 days PTO. Submit requests via the portal.''"
    by code_simp
  show ?thesis
    using extract_relevant_sentences_idempotent [OF k,
        of "''Employees get 15 days PTO. Submit requests via the portal. Unrelated sentence.''"]
    unfolding v .
qed

section \<open>Header selection\<close>

lemma header_is_spec: "header_for query = spec_header query"
  by (simp add: header_for_def spec_header_def spec_topic_groups_def spec_matches_def
      spec_generic_header_def Let_def)

lemma find_first_index:
  "i < length xs \<Longrightarrow> P (xs ! i) \<Longrightarrow> \<forall>j<i. \<not> P (xs ! j) \<Longrightarrow> find P xs = Some (xs ! i)"
proof (induction xs arbitrary: i)
  case Nil
  then show ?case by simp
next
  case (Cons x xs)
  show ?case
  proof (cases i)
    case 0
    with Cons.prems show ?thesis by simp
  next
    case (Suc k)
    have "\<not> P x" using Cons.prems(3) Suc by auto
    moreover have "find P xs = Some (xs ! k)"
      using Cons.prems Suc by (intro Cons.IH) auto
    ultimately show ?thesis using Suc by simp
  qed
qed

lemma find_no_index: "\<forall>i<length xs. \<not> P (xs ! i) \<Longrightarrow> find P xs = None"
  by (auto simp: find_None_iff in_set_conv_nth)

text \<open>
  Claim C5. The header is chosen by first match over the five topic groups in the
  order data security, vacation/PTO, confidentiality, remote work, benefits: the
  header of a query is that of the earliest group one of whose keywords its
  lowercased text contains, and the generic header naming the query when it matches
  no group.
\<close>

theorem header_first_match_wins:
  "header_for query = spec_header query
   \<and> (\<forall>i<length spec_topic_groups.
        spec_matches query (spec_topic_groups ! i)
        \<and> (\<forall>j<i. \<not> spec_matches query (spec_topic_groups ! j))
        \<longrightarrow> header_for query = snd (spec_topic_groups ! i))
   \<and> ((\<forall>i<length spec_topic_groups. \<not> spec_matches query (spec_topic_groups ! i))
        \<longrightarrow> header_for query = spec_generic_header query)"
proof (intro conjI allI impI)
  show "header_for query = spec_header query" by (rule header_is_spec)
next
  fix i
  assume "i < length spec_topic_groups"
    and "spec_matches query (spec_topic_groups ! i)
         \<and> (\<forall>j<i. \<not> spec_matches query (spec_topic_groups ! j))"
  then have "find (spec_matches query) spec_topic_groups = Some (spec_topic_groups ! i)"
    by (intro find_first_index) auto
  then show "header_for query = snd (spec_topic_groups ! i)"
    by (simp add: header_is_spec spec_header_def)
next
  assume "\<forall>i<length spec_topic_groups. \<not> spec_matches query (spec_topic_groups ! i)"
  then have "find (spec_matches query) spec_topic_groups = None" by (rule find_no_index)
  then show "header_for query = spec_generic_header query"
    by (simp add: header_is_spec spec_header_def)
qed

theorem header_first_match_wins_witness:
  "spec_matches ''Vacation and security policy'' (spec_topic_groups ! 0)
   \<and> spec_matches ''Vacation and security policy'' (spec_topic_groups ! 1)
   \<and> header_for ''Vacation and security policy''
       = ''**Contoso Data Security Policy Information:**'' @ newline @ newline
   \<and> header_for ''Where can I park?'' = spec_generic_header ''Where can I park?''"
proof -
  let ?q = "''Vacation and security policy''"
  let ?p = "''Where can I park?''"
  have m0: "spec_matches ?q (spec_topic_groups ! 0)" by code_simp
  have m1: "spec_matches ?q (spec_topic_groups ! 1)" by code_simp
  have len: "0 < length spec_topic_groups" by (simp add: spec_topic_groups_def)
  have h0: "snd (spec_topic_groups ! 0)
              = ''**Contoso Data Security Policy Information:**'' @ newline @ newline"
    by (simp add: spec_topic_groups_def)
  have "list_all (\<lambda>g. \<not> spec_matches ?p g) spec_topic_groups" by code_simp
  then have none: "\<forall>i<length spec_topic_groups. \<not> spec_matches ?p (spec_topic_groups ! i)"
    by (simp add: list_all_length)
  have "\<forall>i<length spec_topic_groups.
          spec_matches ?q (spec_topic_groups ! i)
          \<and> (\<forall>j<i. \<not> spec_matches ?q (spec_topic_groups ! j))
          \<longrightarrow> header_for ?q = snd (spec_topic_groups ! i)"
    using header_first_match_wins [of ?q] by (elim conjE)
  then have "header_for ?q = snd (spec_topic_groups ! 0)"
    using len m0 by auto
  moreover have "header_for ?p = spec_generic_header ?p"
    using header_first_match_wins [of ?p] none by blast
  ultimately show ?thesis using m0 m1 h0 by simp
qed

section \<open>Narrowing of the content\<close>











section \<open>No results\<close>

text \<open>
  Claim C9. When \<open>search_documents\<close> returns no result, \<open>query_handbook\<close> returns
  the fixed text \<open>No relevant information found in the Contoso Handbook.\<close> as its
  normal result, having made no further call.
\<close>

theorem empty_results_message:
  assumes "fst (search_documents w cfg query topn trace) = Inr []"
  shows "query_handbook w cfg query topn trace
           = (Inr ''No relevant information found in the Contoso Handbook.'',
              snd (search_documents w cfg query topn trace))"
  using assms
  by (cases "search_documents w cfg query topn trace")
     (simp add: query_handbook_def query_handbook_try_def)

theorem empty_results_message_witness:
  "fst (query_handbook (example_world True True True True []) example_config
          ''What is the vacation policy?'' 3 [])
     = Inr ''No relevant information found in the Contoso Handbook.''"
proof -
  have h: "fst (search_documents (example_world True True True True []) example_config
                 ''What is the vacation policy?'' 3 []) = Inr []"
    by code_simp
  show ?thesis using empty_results_message [OF h] by simp
qed

section \<open>Calls to the two HTTP services\<close>

lemma post_json_trace:
  "snd (post_json w url headers payload trace) = trace @ [HttpPost url headers payload]"
  by (simp add: post_json_def Let_def split: sum.splits option.splits)

lemma post_json_ok:
  "post w trace url headers payload = Inr r \<Longrightarrow>
   \<not> (400 \<le> status_code r \<and> status_code r < 600) \<Longrightarrow>
   fst (post_json w url headers payload trace) = json_body r"
  by (auto simp: post_json_def Let_def raise_for_status_def)



lemma generate_embedding_trace:
  "text \<noteq> [] \<Longrightarrow>
   snd (generate_embedding w cfg text trace)
     = trace @ [HttpPost (embedding_url cfg) (api_headers cfg) (PDict [(''input'', PStr text)])]"
  using post_json_trace [of w "embedding_url cfg" "api_headers cfg"
      "PDict [(''input'', PStr text)]" trace]
  by (cases "post_json w (embedding_url cfg) (api_headers cfg) (PDict [(''input'', PStr text)]) trace")
     (simp add: generate_embedding_def Let_def split: sum.splits)

lemma generate_embedding_value:
  "text \<noteq> [] \<Longrightarrow>
   fst (post_json w (embedding_url cfg) (api_headers cfg) (PDict [(''input'', PStr text)]) trace)
     = Inr d \<Longrightarrow>
   embedding_of (interpreter w) d = Inr v \<Longrightarrow>
   fst (generate_embedding w cfg text trace) = Inr v"
  by (cases "post_json w (embedding_url cfg) (api_headers cfg) (PDict [(''input'', PStr text)]) trace")
     (simp add: generate_embedding_def Let_def)

lemma embedding_of_found:
  "map_of kv ''data'' = Some (PList (PDict kv0 # rest)) \<Longrightarrow>
   map_of kv0 ''embedding'' = Some v \<Longrightarrow>
   embedding_of it (PDict kv) = Inr v"
  by (simp add: embedding_of_def)

section \<open>The embedding\<close>

text \<open>
  Claim C8. For a non-empty text \<open>generate_embedding\<close> makes exactly one call, the
  POST to the embeddings URL with the text as \<open>input\<close>, whether it then succeeds or
  fails; when the service answers with a status outside 400..599 and a body whose
  \<open>data\<close> is a list that starts with an object holding \<open>embedding\<close>, that value is
  returned as it is. For the empty text it raises \<open>ValueError\<close> and makes no call.
\<close>

theorem generate_embedding_one_call:
  "(text \<noteq> [] \<longrightarrow>
      snd (generate_embedding w cfg text trace)
        = trace @ [HttpPost (embedding_url cfg) (api_headers cfg)
                     (PDict [(''input'', PStr text)])])
   \<and> (text \<noteq> []
        \<and> post w trace (embedding_url cfg) (api_headers cfg) (PDict [(''input'', PStr text)])
            = Inr r
        \<and> \<not> (400 \<le> status_code r \<and> status_code r < 600)
        \<and> json_body r = Inr (PDict kv)
        \<and> map_of kv ''data'' = Some (PList (PDict kv0 # rest))
        \<and> map_of kv0 ''embedding'' = Some v
      \<longrightarrow> fst (generate_embedding w cfg text trace) = Inr v)
   \<and> generate_embedding w cfg [] trace
       = (Inl (Exc ValueError ''Input text cannot be empty''), trace)"
proof (intro conjI impI)
  assume "text \<noteq> []"
  then show "snd (generate_embedding w cfg text trace)
        = trace @ [HttpPost (embedding_url cfg) (api_headers cfg)
                     (PDict [(''input'', PStr text)])]"
    by (rule generate_embedding_trace)
next
  assume a: "text \<noteq> []
        \<and> post w trace (embedding_url cfg) (api_headers cfg) (PDict [(''input'', PStr text)])
            = Inr r
        \<and> \<not> (400 \<le> status_code r \<and> status_code r < 600)
        \<and> json_body r = Inr (PDict kv)
        \<and> map_of kv ''data'' = Some (PList (PDict kv0 # rest))
        \<and> map_of kv0 ''embedding'' = Some v"
  then have "fst (post_json w (embedding_url cfg) (api_headers cfg)
                    (PDict [(''input'', PStr text)]) trace) = Inr (PDict kv)"
    using post_json_ok [of w trace "embedding_url cfg" "api_headers cfg"
        "PDict [(''input'', PStr text)]" r]
    by simp
  moreover have "embedding_of (interpreter w) (PDict kv) = Inr v"
    using a embedding_of_found by blast
  ultimately show "fst (generate_embedding w cfg text trace) = Inr v"
    using a generate_embedding_value by blast
next
  show "generate_embedding w cfg [] trace
       = (Inl (Exc ValueError ''Input text cannot be empty''), trace)"
    by (simp add: generate_embedding_def)
qed

theorem generate_embedding_one_call_witness:
  "generate_embedding (example_world True True True True []) example_config ''vacation'' []
     = (Inr (PList [PNum 0.25, PNum 0.5]),
        [HttpPost (embedding_url example_config) (api_headers example_config)
           (PDict [(''input'', PStr ''vacation'')])])"
proof -
  let ?w = "example_world True True True True []"
  let ?r = "\<lparr>status_code = 200, status_text = [],
              json_body = Inr (PDict [(''data'',
                PList [PDict [(''embedding'', PList [PNum 0.25, PNum 0.5])]])])\<rparr>"
  have p: "post ?w [] (embedding_url example_config) (api_headers example_config)
             (PDict [(''input'', PStr ''vacation'')]) = Inr ?r"
    by (simp add: example_world_def is_embedding_payload_def)
  have ne: "''vacation'' \<noteq> []" by simp
  have s: "\<not> (400 \<le> status_code ?r \<and> status_code ?r < 600)" by simp
  have "snd (generate_embedding ?w example_config ''vacation'' [])
          = [] @ [HttpPost (embedding_url example_config) (api_headers example_config)
               (PDict [(''input'', PStr ''vacation'')])]"
    using generate_embedding_one_call [of "''vacation''" ?w example_config "[]"] ne by blast
  moreover have "fst (generate_embedding ?w example_config ''vacation'' [])
          = Inr (PList [PNum 0.25, PNum 0.5])"
    using generate_embedding_one_call [of "''vacation''" ?w example_config "[]" ?r
        "[(''data'', PList [PDict [(''embedding'', PList [PNum 0.25, PNum 0.5])]])]"
        "[(''embedding'', PList [PNum 0.25, PNum 0.5])]" "[]" "PList [PNum 0.25, PNum 0.5]"]
      ne p s
    by simp
  ultimately show ?thesis by (simp add: prod_eq_iff)
qed

section \<open>Search after a failed embedding\<close>

lemma search_documents_embedding_failed:
  assumes "fst (generate_embedding w cfg query trace) = Inl e"
  shows "search_documents w cfg query topn trace
           = (Inl (Exc PlainException
                     (''Search failed: '' @ unbound_local_text (interpreter w) ''vector_query'')),
              snd (generate_embedding w cfg query trace))"
  using assms
  by (cases "generate_embedding w cfg query trace")
     (simp add: search_documents_def search_try_def search_except_def)

text \<open>
  Claim C3, as amended. When the embedding fails inside \<open>search_documents\<close>, the
  handler reads the unbound local \<open>vector_query\<close> inside its own \<open>try\<close>, so the
  \<open>UnboundLocalError\<close> is caught there and \<open>search_documents\<close> raises the wrapped
  \<open>Exception\<close> whose text is \<open>Search failed: \<close> followed by the text of the unbound
  local error; no search request is made, and the error of the embedding is lost.
\<close>

theorem fallback_after_embedding_failure:
  assumes "fst (generate_embedding w cfg query trace) = Inl e"
  shows "search_documents w cfg query topn trace
           = (Inl (Exc PlainException
                     (''Search failed: '' @ unbound_local_text (interpreter w) ''vector_query'')),
              snd (generate_embedding w cfg query trace))"
  using assms by (rule search_documents_embedding_failed)

text \<open>
  The claim as stated fails: with an embedding service that answers with status 500,
  the error that \<open>search_documents\<close> raises is not the \<open>UnboundLocalError\<close> but the
  wrapped exception, whose text starts with \<open>Search failed:\<close>.
\<close>

theorem fallback_reference_error_counterexample:
  "fst (generate_embedding (example_world False True True True example_hits) example_config
          ''What is the vacation policy?'' [])
     = Inl (Exc PlainException ''Failed to generate embedding: 500 Server Error'')
   \<and> fst (search_documents (example_world False True True True example_hits) example_config
            ''What is the vacation policy?'' 3 [])
     = Inl (Exc PlainException
         (''Search failed: cannot access local variable '' @ quote @ ''vector_query'' @ quote
            @ '' where it is not associated with a value''))
   \<and> exc_class_of (Exc PlainException
         (''Search failed: cannot access local variable '' @ quote @ ''vector_query'' @ quote
            @ '' where it is not associated with a value'')) \<noteq> UnboundLocalError
   \<and> startswith (str_exc (Exc PlainException
         (''Search failed: cannot access local variable '' @ quote @ ''vector_query'' @ quote
            @ '' where it is not associated with a value''))) ''Search failed:''"
  by code_simp

theorem fallback_after_embedding_failure_witness:
  "search_documents (example_world False True True True example_hits) example_config
     ''What is the vacation policy?'' 3 []
     = (Inl (Exc PlainException
         (''Search failed: cannot access local variable '' @ quote @ ''vector_query'' @ quote
            @ '' where it is not associated with a value'')),
        [HttpPost (embedding_url example_config) (api_headers example_config)
           (PDict [(''input'', PStr ''What is the vacation policy?'')])])"
proof -
  have h: "fst (generate_embedding (example_world False True True True example_hits)
                  example_config ''What is the vacation policy?'' [])
             = Inl (Exc PlainException ''Failed to generate embedding: 500 Server Error'')"
    by code_simp
  have t: "snd (generate_embedding (example_world False True True True example_hits)
                  example_config ''What is the vacation policy?'' [])
             = [HttpPost (embedding_url example_config) (api_headers example_config)
                  (PDict [(''input'', PStr ''What is the vacation policy?'')])]"
    by code_simp
  have i: "unbound_local_text (interpreter (example_world False True True True example_hits))
             ''vector_query''
           = ''cannot access local variable '' @ quote @ ''vector_query'' @ quote
             @ '' where it is not associated with a value''"
    by (simp add: example_world_def example_interp_def)
  show ?thesis
    using fallback_after_embedding_failure [OF h, of 3] unfolding t i by simp
qed

section \<open>The search without the filter\<close>

lemma map_of_copy_fields:
  "map_of (copy_fields d fs) f = (if f \<in> set fs then map_of d f else None)"
  by (induction fs) (auto split: option.splits)

lemma format_loop_acc:
  "format_loop ds acc = Inr rs \<Longrightarrow>
   \<exists>rs'. rs = acc @ rs' \<and> list_all2 (\<lambda>d r. result_dict_of d = Inr r) ds rs'"
proof (induction ds arbitrary: acc)
  case Nil
  then show ?case by simp
next
  case (Cons d ds)
  then obtain r where r: "result_dict_of d = Inr r" and l: "format_loop ds (acc @ [r]) = Inr rs"
    by (auto split: sum.splits)
  from Cons.IH [OF l] obtain rs' where "rs = (acc @ [r]) @ rs'"
    and "list_all2 (\<lambda>d r. result_dict_of d = Inr r) ds rs'"
    by blast
  then show ?case using r by (intro exI [of _ "r # rs'"]) simp
qed

lemma result_dict_of_fields:
  assumes "result_dict_of d = Inr r"
  shows "map_of r ''score'' = map_of d ''@search.score''
         \<and> (\<forall>f\<in>set whitelist. map_of r f = map_of d f)
         \<and> dom (map_of r) \<subseteq> insert ''score'' (set whitelist)"
proof -
  from assms obtain score where s: "map_of d ''@search.score'' = Some score"
    and r: "r = (''score'', score) # copy_fields d whitelist"
    by (auto simp: result_dict_of_def split: option.splits)
  have w: "''score'' \<notin> set whitelist" by (simp add: whitelist_def)
  have "map_of r ''score'' = map_of d ''@search.score''" using r s by simp
  moreover have "\<forall>f\<in>set whitelist. map_of r f = map_of d f"
    using r w by (auto simp: map_of_copy_fields)
  moreover have "dom (map_of r) \<subseteq> insert ''score'' (set whitelist)"
    using r by (auto simp: map_of_copy_fields dom_def split: if_splits)
  ultimately show ?thesis by blast
qed

lemma format_results_fields:
  assumes "format_results p = Inr rs"
  shows "list_all2 (\<lambda>d r. map_of r ''score'' = map_of d ''@search.score''
                        \<and> (\<forall>f\<in>set whitelist. map_of r f = map_of d f)
                        \<and> dom (map_of r) \<subseteq> insert ''score'' (set whitelist))
           (hits p) rs"
proof -
  from assms have "format_loop (hits p) [] = Inr rs"
    by (auto simp: format_results_def split: sum.splits option.splits)
  from format_loop_acc [OF this]
  have "list_all2 (\<lambda>d r. result_dict_of d = Inr r) (hits p) rs" by simp
  then show ?thesis
    by (rule list_all2_mono) (rule result_dict_of_fields)
qed

lemma run_search_trace:
  "snd (run_search w query vq flt topn trace) = trace @ [Search query [vq] ''*'' flt topn]"
  by (simp add: run_search_def Let_def split: sum.splits)

lemma run_search_ok:
  "search w trace query [vq] ''*'' flt topn = Inr p \<Longrightarrow>
   fst (run_search w query vq flt topn trace) = format_results p"
  by (simp add: run_search_def Let_def)

lemma run_search_raises:
  "search w trace query [vq] ''*'' flt topn = Inl e \<Longrightarrow>
   fst (run_search w query vq flt topn trace) = Inl e"
  by (simp add: run_search_def Let_def)

lemma search_documents_retry:
  assumes emb: "generate_embedding w cfg query trace = (Inr embedding, trace1)"
    and vq: "vq = \<lparr>vector = embedding, k_nearest_neighbors = topn,
                   fields_arg = ''contentVector''\<rparr>"
    and first: "fst (run_search w query vq (search_filter_for query) topn trace1) = Inl e"
    and trace2: "trace2 = trace1 @ [Search query [vq] ''*'' (search_filter_for query) topn]"
  shows "search_documents w cfg query topn trace
           = (case fst (run_search w query vq None topn trace2) of
                Inl e2 \<Rightarrow> Inl (Exc PlainException (''Search failed: '' @ str_exc e2))
              | Inr rs \<Rightarrow> Inr rs,
              trace2 @ [Search query [vq] ''*'' None topn])"
proof -
  obtain a b where ab: "run_search w query vq (search_filter_for query) topn trace1 = (a, b)"
    by (cases "run_search w query vq (search_filter_for query) topn trace1")
  have a: "a = Inl e" using first ab by simp
  have b: "b = trace2"
    using run_search_trace [of w query vq "search_filter_for query" topn trace1] ab trace2
    by simp
  obtain c d where cd: "run_search w query vq None topn trace2 = (c, d)"
    by (cases "run_search w query vq None topn trace2")
  have d: "d = trace2 @ [Search query [vq] ''*'' None topn]"
    using run_search_trace [of w query vq None topn trace2] cd by simp
  have t: "search_try w cfg query topn trace = (Inl e, Some vq, trace2)"
    using emb ab a b by (simp add: search_try_def Let_def vq)
  show ?thesis
    using t cd d
    by (simp add: search_documents_def search_except_def split: sum.splits)
qed

text \<open>
  Claim C2. Once the embedding is there, if the first search attempt (the request
  with the filter of the query, or the reading of its hits) raises anything, and the
  request without the filter that follows it is answered and its hits are read
  without an error, then \<open>search_documents\<close> returns normally, having made exactly
  these two search requests, and its results are those of the second request, in
  their order: each holds the score of its hit under \<open>score\<close>, the whitelisted fields
  that the hit has with their values, and nothing else.
\<close>

theorem unfiltered_retry_results:
  assumes "generate_embedding w cfg query trace = (Inr embedding, trace1)"
    and "vq = \<lparr>vector = embedding, k_nearest_neighbors = topn, fields_arg = ''contentVector''\<rparr>"
    and "fst (run_search w query vq (search_filter_for query) topn trace1) = Inl e"
    and "trace2 = trace1 @ [Search query [vq] ''*'' (search_filter_for query) topn]"
    and "search w trace2 query [vq] ''*'' None topn = Inr p"
    and "format_results p = Inr rs"
  shows "search_documents w cfg query topn trace
           = (Inr rs, trace2 @ [Search query [vq] ''*'' None topn])
         \<and> list_all2 (\<lambda>d r. map_of r ''score'' = map_of d ''@search.score''
                        \<and> (\<forall>f\<in>set whitelist. map_of r f = map_of d f)
                        \<and> dom (map_of r) \<subseteq> insert ''score'' (set whitelist))
             (hits p) rs"
proof
  have "fst (run_search w query vq None topn trace2) = Inr rs"
    using run_search_ok [OF assms(5)] assms(6) by simp
  then show "search_documents w cfg query topn trace
           = (Inr rs, trace2 @ [Search query [vq] ''*'' None topn])"
    using search_documents_retry [OF assms(1) assms(2) assms(3) assms(4)] by simp
next
  show "list_all2 (\<lambda>d r. map_of r ''score'' = map_of d ''@search.score''
                        \<and> (\<forall>f\<in>set whitelist. map_of r f = map_of d f)
                        \<and> dom (map_of r) \<subseteq> insert ''score'' (set whitelist))
             (hits p) rs"
    using assms(6) by (rule format_results_fields)
qed

theorem unfiltered_retry_results_witness:
  "search_documents (example_world True False True True example_hits) example_config
     ''What is the vacation policy?'' 3 []
   = (Inr [[(''score'', PNum 0.9),
            (''content'',
               PStr ''Employees get 15 days PTO. Submit requests via the portal. Unrelated sentence.''),
            (''title'', PStr ''Time Off'')],
           [(''score'', PNum 0.5),
            (''content'', PStr ''Use a password. Lock your screen.''),
            (''url'', PStr ''https://contoso.example/handbook'')]],
      [HttpPost (embedding_url example_config) (api_headers example_config)
         (PDict [(''input'', PStr ''What is the vacation policy?'')]),
       Search ''What is the vacation policy?''
         [\<lparr>vector = PList [PNum 0.25, PNum 0.5], k_nearest_neighbors = 3,
           fields_arg = ''contentVector''\<rparr>] ''*''
         (search_filter_for ''What is the vacation policy?'') 3,
       Search ''What is the vacation policy?''
         [\<lparr>vector = PList [PNum 0.25, PNum 0.5], k_nearest_neighbors = 3,
           fields_arg = ''contentVector''\<rparr>] ''*'' None 3])"
proof -
  let ?w = "example_world True False True True example_hits"
  let ?q = "''What is the vacation policy?''"
  let ?vq = "\<lparr>vector = PList [PNum 0.25, PNum 0.5], k_nearest_neighbors = 3,
               fields_arg = ''contentVector''\<rparr>"
  let ?t1 = "[HttpPost (embedding_url example_config) (api_headers example_config)
               (PDict [(''input'', PStr ?q)])]"
  let ?rs = "[[(''score'', PNum 0.9),
            (''content'',
               PStr ''Employees get 15 days PTO. Submit requests via the portal. Unrelated sentence.''),
            (''title'', PStr ''Time Off'')],
           [(''score'', PNum 0.5),
            (''content'', PStr ''Use a password. Lock your screen.''),
            (''url'', PStr ''https://contoso.example/handbook'')]]"
  have emb: "generate_embedding ?w example_config ?q [] = (Inr (PList [PNum 0.25, PNum 0.5]), ?t1)"
    by code_simp
  have first: "fst (run_search ?w ?q ?vq (search_filter_for ?q) 3 ?t1)
                 = Inl (Exc ServiceError ''invalid filter'')"
    by code_simp
  have retry: "search ?w (?t1 @ [Search ?q [?vq] ''*'' (search_filter_for ?q) 3]) ?q [?vq] ''*''
                 None 3 = Inr \<lparr>hits = example_hits, raises_after = None\<rparr>"
    by (simp add: example_world_def is_search_def)
  have fmt: "format_results \<lparr>hits = example_hits, raises_after = None\<rparr> = Inr ?rs"
    by code_simp
  show ?thesis
    using unfiltered_retry_results [OF emb refl first refl retry fmt] by simp
qed

section \<open>Rephrasing\<close>

lemma startswith_append: "startswith (sub @ b) sub"
  by (induction sub) simp_all













section \<open>Errors of the whole flow\<close>

lemma query_handbook_returns: "\<exists>s. fst (query_handbook w cfg query topn trace) = Inr s"
  by (cases "query_handbook_try w cfg query topn trace")
     (auto simp: query_handbook_def split: sum.splits)

lemma query_handbook_handler:
  "fst (query_handbook_try w cfg query topn trace) = Inl e \<Longrightarrow>
   fst (query_handbook w cfg query topn trace)
     = Inr (''Error querying the Contoso Handbook: '' @ str_exc e)"
  by (cases "query_handbook_try w cfg query topn trace") (simp add: query_handbook_def)

lemma query_handbook_try_search_raises:
  "fst (search_documents w cfg query topn trace) = Inl e \<Longrightarrow>
   fst (query_handbook_try w cfg query topn trace) = Inl e"
  by (cases "search_documents w cfg query topn trace") (simp add: query_handbook_try_def)

lemma query_handbook_try_content_raises:
  "fst (search_documents w cfg query topn trace) = Inr results \<Longrightarrow> results \<noteq> [] \<Longrightarrow>
   content_loop (interpreter w) (lower query) results [] = Inl e \<Longrightarrow>
   fst (query_handbook_try w cfg query topn trace) = Inl e"
  by (cases "search_documents w cfg query topn trace")
     (simp add: query_handbook_try_def Let_def)

lemma query_handbook_try_join_raises:
  "fst (search_documents w cfg query topn trace) = Inr results \<Longrightarrow> results \<noteq> [] \<Longrightarrow>
   content_loop (interpreter w) (lower query) results [] = Inr all_content \<Longrightarrow>
   join_values (interpreter w) (newline @ newline) all_content = Inl e \<Longrightarrow>
   fst (query_handbook_try w cfg query topn trace) = Inl e"
  by (cases "search_documents w cfg query topn trace")
     (simp add: query_handbook_try_def Let_def)

lemma search_documents_both_fail:
  assumes "generate_embedding w cfg query trace = (Inr embedding, trace1)"
    and "vq = \<lparr>vector = embedding, k_nearest_neighbors = topn, fields_arg = ''contentVector''\<rparr>"
    and "fst (run_search w query vq (search_filter_for query) topn trace1) = Inl e1"
    and "trace2 = trace1 @ [Search query [vq] ''*'' (search_filter_for query) topn]"
    and "fst (run_search w query vq None topn trace2) = Inl e2"
  shows "fst (search_documents w cfg query topn trace)
           = Inl (Exc PlainException (''Search failed: '' @ str_exc e2))"
  using search_documents_retry [OF assms(1) assms(2) assms(3) assms(4)] assms(5) by simp

text \<open>
  Claim C1. \<open>query_handbook\<close> always returns a string. Whenever the body of its
  \<open>try\<close> raises an exception \<open>e\<close>, the string is
  \<open>Error querying the Contoso Handbook: \<close> followed by the text of \<open>e\<close>, so it begins
  with \<open>Error querying the Contoso Handbook:\<close>. That is the case when the embedding
  fails, when \<open>search_documents\<close> raises, and when the narrowing or the joining of the
  contents raises. When the embedding is there and both the search with the filter
  and the search without it fail, \<open>search_documents\<close> raises the exception whose text
  is \<open>Search failed: \<close> followed by the text of the second failure, and
  \<open>query_handbook\<close> returns the error string with that text. The exceptions of the
  model are those that \<open>except Exception\<close> catches.
\<close>

theorem query_handbook_never_raises:
  "(\<exists>s. fst (query_handbook w cfg query topn trace) = Inr s)
   \<and> (fst (query_handbook_try w cfg query topn trace) = Inl e
      \<longrightarrow> fst (query_handbook w cfg query topn trace)
            = Inr (''Error querying the Contoso Handbook: '' @ str_exc e)
          \<and> startswith (''Error querying the Contoso Handbook: '' @ str_exc e)
               ''Error querying the Contoso Handbook:'')
   \<and> (fst (generate_embedding w cfg query trace) = Inl e
      \<longrightarrow> fst (query_handbook w cfg query topn trace)
            = Inr (''Error querying the Contoso Handbook: '' @ ''Search failed: ''
                     @ unbound_local_text (interpreter w) ''vector_query''))
   \<and> (fst (search_documents w cfg query topn trace) = Inl e
      \<longrightarrow> fst (query_handbook w cfg query topn trace)
            = Inr (''Error querying the Contoso Handbook: '' @ str_exc e))
   \<and> (fst (search_documents w cfg query topn trace) = Inr results \<and> results \<noteq> []
        \<and> content_loop (interpreter w) (lower query) results [] = Inl e
      \<longrightarrow> fst (query_handbook w cfg query topn trace)
            = Inr (''Error querying the Contoso Handbook: '' @ str_exc e))
   \<and> (fst (search_documents w cfg query topn trace) = Inr results \<and> results \<noteq> []
        \<and> content_loop (interpreter w) (lower query) results [] = Inr all_content
        \<and> join_values (interpreter w) (newline @ newline) all_content = Inl e
      \<longrightarrow> fst (query_handbook w cfg query topn trace)
            = Inr (''Error querying the Contoso Handbook: '' @ str_exc e))
   \<and> (generate_embedding w cfg query trace = (Inr embedding, trace1)
        \<and> vq = \<lparr>vector = embedding, k_nearest_neighbors = topn,
                  fields_arg = ''contentVector''\<rparr>
        \<and> fst (run_search w query vq (search_filter_for query) topn trace1) = Inl e1
        \<and> trace2 = trace1 @ [Search query [vq] ''*'' (search_filter_for query) topn]
        \<and> fst (run_search w query vq None topn trace2) = Inl e2
      \<longrightarrow> fst (search_documents w cfg query topn trace)
            = Inl (Exc PlainException (''Search failed: '' @ str_exc e2))
          \<and> fst (query_handbook w cfg query topn trace)
            = Inr (''Error querying the Contoso Handbook: '' @ ''Search failed: ''
                     @ str_exc e2))"
proof -
  let ?qh = "fst (query_handbook w cfg query topn trace)"
  let ?p = "''Error querying the Contoso Handbook: ''"
  have c1: "\<exists>s. ?qh = Inr s" by (rule query_handbook_returns)
  have s: "startswith (?p @ str_exc e) ''Error querying the Contoso Handbook:''"
    using startswith_append [of "''Error querying the Contoso Handbook:''" "'' '' @ str_exc e"]
    by simp
  have c2: "fst (query_handbook_try w cfg query topn trace) = Inl e
      \<longrightarrow> ?qh = Inr (?p @ str_exc e)
          \<and> startswith (?p @ str_exc e) ''Error querying the Contoso Handbook:''"
    using query_handbook_handler [of w cfg query topn trace e] s by (intro impI conjI)
  have c3: "fst (generate_embedding w cfg query trace) = Inl e
      \<longrightarrow> ?qh = Inr (?p @ ''Search failed: ''
                     @ unbound_local_text (interpreter w) ''vector_query'')"
  proof
    assume "fst (generate_embedding w cfg query trace) = Inl e"
    then have "fst (search_documents w cfg query topn trace)
                 = Inl (Exc PlainException
                     (''Search failed: '' @ unbound_local_text (interpreter w) ''vector_query''))"
      using search_documents_embedding_failed [of w cfg query trace e topn] by simp
    then have "fst (query_handbook_try w cfg query topn trace)
                 = Inl (Exc PlainException
                     (''Search failed: '' @ unbound_local_text (interpreter w) ''vector_query''))"
      by (rule query_handbook_try_search_raises)
    then show "?qh = Inr (?p @ ''Search failed: ''
                     @ unbound_local_text (interpreter w) ''vector_query'')"
      using query_handbook_handler by fastforce
  qed
  have c4: "fst (search_documents w cfg query topn trace) = Inl e
      \<longrightarrow> ?qh = Inr (?p @ str_exc e)"
    using query_handbook_handler query_handbook_try_search_raises by (intro impI) blast
  have c5: "fst (search_documents w cfg query topn trace) = Inr results \<and> results \<noteq> []
        \<and> content_loop (interpreter w) (lower query) results [] = Inl e
      \<longrightarrow> ?qh = Inr (?p @ str_exc e)"
    using query_handbook_handler query_handbook_try_content_raises by (intro impI) blast
  have c6: "fst (search_documents w cfg query topn trace) = Inr results \<and> results \<noteq> []
        \<and> content_loop (interpreter w) (lower query) results [] = Inr all_content
        \<and> join_values (interpreter w) (newline @ newline) all_content = Inl e
      \<longrightarrow> ?qh = Inr (?p @ str_exc e)"
    using query_handbook_handler query_handbook_try_join_raises by (intro impI) blast
  have c7: "generate_embedding w cfg query trace = (Inr embedding, trace1)
        \<and> vq = \<lparr>vector = embedding, k_nearest_neighbors = topn,
                  fields_arg = ''contentVector''\<rparr>
        \<and> fst (run_search w query vq (search_filter_for query) topn trace1) = Inl e1
        \<and> trace2 = trace1 @ [Search query [vq] ''*'' (search_filter_for query) topn]
        \<and> fst (run_search w query vq None topn trace2) = Inl e2
      \<longrightarrow> fst (search_documents w cfg query topn trace)
            = Inl (Exc PlainException (''Search failed: '' @ str_exc e2))
          \<and> ?qh = Inr (?p @ ''Search failed: '' @ str_exc e2)"
  proof
    assume a: "generate_embedding w cfg query trace = (Inr embedding, trace1)
        \<and> vq = \<lparr>vector = embedding, k_nearest_neighbors = topn,
                  fields_arg = ''contentVector''\<rparr>
        \<and> fst (run_search w query vq (search_filter_for query) topn trace1) = Inl e1
        \<and> trace2 = trace1 @ [Search query [vq] ''*'' (search_filter_for query) topn]
        \<and> fst (run_search w query vq None topn trace2) = Inl e2"
    have sd: "fst (search_documents w cfg query topn trace)
            = Inl (Exc PlainException (''Search failed: '' @ str_exc e2))"
    proof (rule search_documents_both_fail)
      show "generate_embedding w cfg query trace = (Inr embedding, trace1)" using a by (elim conjE)
      show "vq = \<lparr>vector = embedding, k_nearest_neighbors = topn,
                  fields_arg = ''contentVector''\<rparr>" using a by (elim conjE)
      show "fst (run_search w query vq (search_filter_for query) topn trace1) = Inl e1"
        using a by (elim conjE)
      show "trace2 = trace1 @ [Search query [vq] ''*'' (search_filter_for query) topn]"
        using a by (elim conjE)
      show "fst (run_search w query vq None topn trace2) = Inl e2" using a by (elim conjE)
    qed
    then have "fst (query_handbook_try w cfg query topn trace)
            = Inl (Exc PlainException (''Search failed: '' @ str_exc e2))"
      by (rule query_handbook_try_search_raises)
    then have "?qh = Inr (?p @ ''Search failed: '' @ str_exc e2)"
      using query_handbook_handler by fastforce
    then show "fst (search_documents w cfg query topn trace)
            = Inl (Exc PlainException (''Search failed: '' @ str_exc e2))
          \<and> ?qh = Inr (?p @ ''Search failed: '' @ str_exc e2)"
      using sd by simp
  qed
  show ?thesis
    using c1 c2 c3 c4 c5 c6 c7 by (intro conjI)
qed

theorem query_handbook_never_raises_witness:
  "fst (query_handbook (example_world True False False True example_hits) example_config
          ''What is the vacation policy?'' 3 [])
     = Inr ''Error querying the Contoso Handbook: Search failed: service unavailable''
   \<and> fst (search_documents (example_world True False False True example_hits) example_config
            ''What is the vacation policy?'' 3 [])
     = Inl (Exc PlainException ''Search failed: service unavailable'')"
proof -
  let ?w = "example_world True False False True example_hits"
  let ?q = "''What is the vacation policy?''"
  let ?vq = "\<lparr>vector = PList [PNum 0.25, PNum 0.5], k_nearest_neighbors = 3,
               fields_arg = ''contentVector''\<rparr>"
  let ?t1 = "[HttpPost (embedding_url example_config) (api_headers example_config)
               (PDict [(''input'', PStr ?q)])]"
  let ?t2 = "?t1 @ [Search ?q [?vq] ''*'' (search_filter_for ?q) 3]"
  have emb: "generate_embedding ?w example_config ?q [] = (Inr (PList [PNum 0.25, PNum 0.5]), ?t1)"
    by code_simp
  have first: "fst (run_search ?w ?q ?vq (search_filter_for ?q) 3 ?t1)
                 = Inl (Exc ServiceError ''invalid filter'')"
    by code_simp
  have second: "fst (run_search ?w ?q ?vq None 3 ?t2)
                 = Inl (Exc ServiceError ''service unavailable'')"
    by code_simp
  have h: "generate_embedding ?w example_config ?q [] = (Inr (PList [PNum 0.25, PNum 0.5]), ?t1)
        \<and> ?vq = \<lparr>vector = PList [PNum 0.25, PNum 0.5], k_nearest_neighbors = 3,
                  fields_arg = ''contentVector''\<rparr>
        \<and> fst (run_search ?w ?q ?vq (search_filter_for ?q) 3 ?t1)
            = Inl (Exc ServiceError ''invalid filter'')
        \<and> ?t2 = ?t1 @ [Search ?q [?vq] ''*'' (search_filter_for ?q) 3]
        \<and> fst (run_search ?w ?q ?vq None 3 ?t2) = Inl (Exc ServiceError ''service unavailable'')"
    using emb first second by (intro conjI refl)
  have "fst (search_documents ?w example_config ?q 3 [])
            = Inl (Exc PlainException
                (''Search failed: '' @ str_exc (Exc ServiceError ''service unavailable'')))
          \<and> fst (query_handbook ?w example_config ?q 3 [])
            = Inr (''Error querying the Contoso Handbook: '' @ ''Search failed: ''
                     @ str_exc (Exc ServiceError ''service unavailable''))"
    using query_handbook_never_raises [where w = ?w and cfg = example_config and query = ?q
        and topn = 3 and trace = "[]" and embedding = "PList [PNum 0.25, PNum 0.5]"
        and ?trace1.0 = ?t1 and vq = ?vq and ?trace2.0 = ?t2
        and ?e1.0 = "Exc ServiceError ''invalid filter''"
        and ?e2.0 = "Exc ServiceError ''service unavailable''",
        THEN conjunct2, THEN conjunct2, THEN conjunct2, THEN conjunct2, THEN conjunct2,
        THEN conjunct2, THEN mp, OF h] .
  then show ?thesis by simp
qed

end
